theory Spec2Isabelle
  imports Complex_Main
begin

section \<open>Action vocabularies and the action translation (play\_pacman\_ui.py, lines 113--127)\<close>

text \<open>
  The source vocabulary is the one \<open>get_human_action\<close> returns; the comment at line 118 of
  play\_pacman\_ui.py gives its codes: NOOP=0, FIRE=1, UP=2, RIGHT=3, LEFT=4, DOWN=5.
  The destination vocabulary is Pacman's (line 119): 0=NOOP, 1=UP, 2=RIGHT, 3=LEFT, 4=DOWN.
  \<open>int(action)\<close> is a Python integer, so an action value is an \<open>int\<close>.
\<close>

definition JAXAtariAction_NOOP :: int where "JAXAtariAction_NOOP = 0"
definition JAXAtariAction_FIRE :: int where "JAXAtariAction_FIRE = 1"
definition JAXAtariAction_UP :: int where "JAXAtariAction_UP = 2"
definition JAXAtariAction_RIGHT :: int where "JAXAtariAction_RIGHT = 3"
definition JAXAtariAction_LEFT :: int where "JAXAtariAction_LEFT = 4"
definition JAXAtariAction_DOWN :: int where "JAXAtariAction_DOWN = 5"

definition Pacman_NOOP :: int where "Pacman_NOOP = 0"
definition Pacman_UP :: int where "Pacman_UP = 1"
definition Pacman_RIGHT :: int where "Pacman_RIGHT = 2"
definition Pacman_LEFT :: int where "Pacman_LEFT = 3"
definition Pacman_DOWN :: int where "Pacman_DOWN = 4"

text \<open>The dict literal of lines 120--126, in the order it is written.\<close>

definition action_map :: "int \<rightharpoonup> int" where
  "action_map = map_of [(0, 0), (2, 1), (3, 2), (4, 3), (5, 4)]"

text \<open>Python's \<open>d.get(k, default)\<close>: the default for a missing key, never a KeyError.\<close>

definition dict_get :: "('k \<rightharpoonup> 'v) \<Rightarrow> 'k \<Rightarrow> 'v \<Rightarrow> 'v" where
  "dict_get d k dflt = (case d k of None \<Rightarrow> dflt | Some v \<Rightarrow> v)"

text \<open>Line 127: \<open>pacman_action = action_map.get(action_int, 0)\<close>.\<close>

definition pacman_action :: "int \<Rightarrow> int" where
  "pacman_action action_int = dict_get action_map action_int 0"


section \<open>The scripted action source (run\_pacman.py, line 54)\<close>

text \<open>
  \<open>action = (step // 10) % 4 + 1\<close> on Python integers. Python's \<open>//\<close> and \<open>%\<close> round
  towards minus infinity, as \<open>div\<close> and \<open>mod\<close> on \<open>int\<close> do.
\<close>

definition scripted_action :: "int \<Rightarrow> int" where
  "scripted_action step = (step div 10) mod 4 + 1"


section \<open>Exceptions, input events and observable effects\<close>

text \<open>
  The exception classes the handlers of the two scripts tell apart: \<open>ImportError\<close>
  (caught at module level, line 159), \<open>SystemExit\<close> (caught around
  \<open>get_human_action\<close>, line 109; not a subclass of \<open>Exception\<close>, so no
  \<open>except Exception\<close> catches it) and every other subclass of \<open>Exception\<close>.
  The string is the exception's message, the integer the exit code of a \<open>SystemExit\<close>.
\<close>

datatype py_exn = ImportError string | SystemExit int | OtherException string

text \<open>\<open>isinstance(e, Exception)\<close>: what \<open>except Exception\<close> catches.\<close>

fun is_Exception :: "py_exn \<Rightarrow> bool" where
  "is_Exception (ImportError m) = True"
| "is_Exception (SystemExit c) = False"
| "is_Exception (OtherException m) = True"

text \<open>The pygame events and keys the event loop of lines 81--97 distinguishes.\<close>

datatype pg_key = K_ESCAPE | K_p | K_r | K_other

datatype pg_event = QUIT | KEYDOWN pg_key | OTHER_EVENT

text \<open>
  What one iteration of the main loop receives from outside: the events
  \<open>pygame.event.get()\<close> returns (line 81) and what \<open>get_human_action()\<close> does if it is
  called in this iteration (line 108): it raises, or returns an action code.
\<close>

record tick_input =
  events :: "pg_event list"
  human_action :: "py_exn + int"

text \<open>
  Everything the script does to the outside world, in the order it does it: calls of the
  environment, of pygame and of the action source, and console output. The parameters are
  the values passed (the key of a reset call, the state and action of a step call, the
  state of a render call, the frame handed to \<open>update_pygame\<close>, the score, lives and
  reward written to the caption and to the game-over report).
\<close>

datatype ('k, 's, 'r, 'f) effect =
    Print_banner
  | Print_loading
  | Call_make
  | Print_loaded
  | Print_load_error py_exn
  | Print_traceback
  | Pygame_init
  | Set_caption_title
  | Call_reset 'k
  | Call_step 's int
  | Call_render 's
  | Set_mode
  | Print_starting
  | Event_get
  | Print_paused bool
  | Print_game_reset
  | Update_pygame 'f
  | Clock_tick
  | Get_human_action
  | Set_caption int int 'r
  | Print_game_over int 'r
  | Pygame_quit
  | Print_closed
  | Print_error py_exn
  | Print_deps_missing py_exn
  | Sys_exit int

text \<open>Projections of a trace: the arguments of its reset, step and render calls, in order,
  and its polls of the action source.\<close>

fun reset_key_of :: "('k, 's, 'r, 'f) effect \<Rightarrow> 'k list" where
  "reset_key_of (Call_reset k) = [k]"
| "reset_key_of _ = []"

fun step_call_of :: "('k, 's, 'r, 'f) effect \<Rightarrow> ('s \<times> int) list" where
  "step_call_of (Call_step st a) = [(st, a)]"
| "step_call_of _ = []"

fun render_call_of :: "('k, 's, 'r, 'f) effect \<Rightarrow> 's list" where
  "render_call_of (Call_render st) = [st]"
| "render_call_of _ = []"

fun poll_of :: "('k, 's, 'r, 'f) effect \<Rightarrow> unit list" where
  "poll_of Get_human_action = [()]"
| "poll_of _ = []"

definition reset_keys :: "('k, 's, 'r, 'f) effect list \<Rightarrow> 'k list" where
  "reset_keys tr = concat (map reset_key_of tr)"

definition step_calls :: "('k, 's, 'r, 'f) effect list \<Rightarrow> ('s \<times> int) list" where
  "step_calls tr = concat (map step_call_of tr)"

definition rendered :: "('k, 's, 'r, 'f) effect list \<Rightarrow> 's list" where
  "rendered tr = concat (map render_call_of tr)"

definition polls :: "('k, 's, 'r, 'f) effect list \<Rightarrow> unit list" where
  "polls tr = concat (map poll_of tr)"


section \<open>The collaborators: environment and libraries\<close>

text \<open>
  The environment \<open>jaxatari.make("pacman")\<close> returns is not part of the repository; it is a
  parameter of the model. \<open>reset\<close> and \<open>step\<close> are functions of their arguments
  (\<open>jax.jit\<close> does not change what they compute); \<open>step\<close> also returns an \<open>info\<close> value the
  script never reads, left out here. \<open>render\<close> may raise. \<open>obs_score\<close> and \<open>obs_lives\<close>
  are the attributes \<open>obs.score\<close> and \<open>obs.lives\<close> as integers, \<open>None\<close> when
  \<open>hasattr\<close> is false. The reward is a Python float after \<open>float(reward)\<close>; its type
  \<open>'r\<close> is any type with \<open>+\<close> and \<open>0\<close>, so nothing proved depends on how floats add.
\<close>

record ('k, 's, 'o, 'r, 'f) environment =
  env_reset :: "'k \<Rightarrow> 'o \<times> 's"
  env_step :: "'s \<Rightarrow> int \<Rightarrow> 'o \<times> 's \<times> 'r \<times> bool"
  env_render :: "'s \<Rightarrow> py_exn + 'f"
  obs_score :: "'o \<Rightarrow> int option"
  obs_lives :: "'o \<Rightarrow> int option"

text \<open>
  The libraries: whether the imports of lines 15--16 succeed, what
  \<open>jaxatari.make("pacman")\<close> does (raises, or returns an environment), and
  \<open>jax.random\<close>'s \<open>PRNGKey\<close> and \<open>fold_in\<close>, whose code is JAX's and is not modelled.
\<close>

record ('k, 's, 'o, 'r, 'f) world =
  import_error :: "py_exn option"
  jaxatari_make :: "py_exn + ('k, 's, 'o, 'r, 'f) environment"
  PRNGKey :: "int \<Rightarrow> 'k"
  fold_in :: "'k \<Rightarrow> int \<Rightarrow> 'k"


section \<open>The session: the local variables of \<open>main\<close> (play\_pacman\_ui.py)\<close>

text \<open>
  \<open>total_return\<close> is the cumulative reward. \<open>trace\<close> is not a variable of the script: it
  records the effects performed so far, oldest first.
\<close>

record ('k, 's, 'o, 'r, 'f) session =
  master_key :: 'k
  reset_counter :: int
  obs :: 'o
  state :: 's
  running :: bool
  pause :: bool
  total_return :: 'r
  trace :: "('k, 's, 'r, 'f) effect list"

definition emit ::
  "('k, 's, 'r, 'f) effect list \<Rightarrow> ('k, 's, 'o, 'r, 'f) session \<Rightarrow> ('k, 's, 'o, 'r, 'f) session"
  where "emit es s = s\<lparr>trace := trace s @ es\<rparr>"

text \<open>
  Lines 82--97: one event of the \<open>for\<close> loop. The \<open>continue\<close> of lines 84 and 88 belongs
  to the \<open>for\<close> loop: the remaining events are still handled and the rest of the iteration
  still runs. Lines 93--97 are the manual reset.
\<close>

fun handle_event ::
  "('k, 's, 'o, 'r::{plus,zero}, 'f) world \<Rightarrow> ('k, 's, 'o, 'r, 'f) environment \<Rightarrow>
   ('k, 's, 'o, 'r, 'f) session \<Rightarrow> pg_event \<Rightarrow> ('k, 's, 'o, 'r, 'f) session" where
  "handle_event w env s QUIT = s\<lparr>running := False\<rparr>"
| "handle_event w env s (KEYDOWN K_ESCAPE) = s\<lparr>running := False\<rparr>"
| "handle_event w env s (KEYDOWN K_p) =
     emit [Print_paused (\<not> pause s)] (s\<lparr>pause := \<not> pause s\<rparr>)"
| "handle_event w env s (KEYDOWN K_r) =
     (let reset_key = fold_in w (master_key s) (reset_counter s);
          (obs', state') = env_reset env reset_key
      in emit [Call_reset reset_key, Print_game_reset]
           (s\<lparr>obs := obs', state := state',
              reset_counter := reset_counter s + 1,
              total_return := 0\<rparr>))"
| "handle_event w env s (KEYDOWN K_other) = s"
| "handle_event w env s OTHER_EVENT = s"

text \<open>Line 81: the \<open>for\<close> loop over the events of this iteration.\<close>

fun handle_events ::
  "('k, 's, 'o, 'r::{plus,zero}, 'f) world \<Rightarrow> ('k, 's, 'o, 'r, 'f) environment \<Rightarrow>
   ('k, 's, 'o, 'r, 'f) session \<Rightarrow> pg_event list \<Rightarrow> ('k, 's, 'o, 'r, 'f) session" where
  "handle_events w env s [] = s"
| "handle_events w env s (e # es) = handle_events w env (handle_event w env s e) es"

text \<open>
  Lines 101--103 and, with the same three statements, lines 149--151: render the current
  state, show the frame, wait for the next tick. No handler surrounds them: an exception
  of \<open>render\<close> leaves the loop and \<open>main\<close>, with the session as it is at the call.
\<close>

definition render_and_show ::
  "('k, 's, 'o, 'r, 'f) environment \<Rightarrow> ('k, 's, 'o, 'r, 'f) session \<Rightarrow>
   (py_exn \<times> ('k, 's, 'o, 'r, 'f) session) + ('k, 's, 'o, 'r, 'f) session" where
  "render_and_show env s =
     (case env_render env (state s) of
        Inl e \<Rightarrow> Inl (e, emit [Call_render (state s)] s)
      | Inr img \<Rightarrow> Inr (emit [Call_render (state s), Update_pygame img, Clock_tick] s))"

text \<open>
  Lines 115--146: translate the action, step the environment, add the reward, update the
  caption, and on \<open>done\<close> report the episode and reset (lines 141--146).
\<close>

definition step_and_account ::
  "('k, 's, 'o, 'r::{plus,zero}, 'f) world \<Rightarrow> ('k, 's, 'o, 'r, 'f) environment \<Rightarrow>
   int \<Rightarrow> ('k, 's, 'o, 'r, 'f) session \<Rightarrow> ('k, 's, 'o, 'r, 'f) session" where
  "step_and_account w env action_int s =
     (let pacman = pacman_action action_int;
          (obs', state', reward, done) = env_step env (state s) pacman;
          s1 = emit [Call_step (state s) pacman]
                 (s\<lparr>obs := obs', state := state', total_return := total_return s + reward\<rparr>);
          score = (case obs_score env obs' of Some v \<Rightarrow> v | None \<Rightarrow> 0);
          lives = (case obs_lives env obs' of Some v \<Rightarrow> v | None \<Rightarrow> 0);
          s2 = emit [Set_caption score lives (total_return s1)] s1
      in if done then
           (let s3 = emit [Print_game_over score (total_return s2)] s2;
                s4 = s3\<lparr>total_return := 0\<rparr>;
                reset_key = fold_in w (master_key s4) (reset_counter s4);
                (obs'', state'') = env_reset env reset_key
            in emit [Call_reset reset_key]
                 (s4\<lparr>obs := obs'', state := state'', reset_counter := reset_counter s4 + 1\<rparr>))
         else s2)"

text \<open>
  Lines 80--151: one iteration of \<open>while running\<close>. \<open>Inl (e, s)\<close>: exception \<open>e\<close> leaves
  the loop with the session \<open>s\<close>; \<open>Inr s\<close>: the iteration ends (at its last statement or at
  a \<open>continue\<close>) with the session \<open>s\<close>.
\<close>

definition tick ::
  "('k, 's, 'o, 'r::{plus,zero}, 'f) world \<Rightarrow> ('k, 's, 'o, 'r, 'f) environment \<Rightarrow>
   tick_input \<Rightarrow> ('k, 's, 'o, 'r, 'f) session \<Rightarrow>
   (py_exn \<times> ('k, 's, 'o, 'r, 'f) session) + ('k, 's, 'o, 'r, 'f) session" where
  "tick w env inp s =
     (let s1 = handle_events w env (emit [Event_get] s) (events inp)
      in if pause s1 then render_and_show env s1
         else (case human_action inp of
                 Inl (SystemExit c) \<Rightarrow> Inr ((emit [Get_human_action] s1)\<lparr>running := False\<rparr>)
               | Inl e \<Rightarrow> Inl (e, emit [Get_human_action] s1)
               | Inr action \<Rightarrow>
                   render_and_show env
                     (step_and_account w env action (emit [Get_human_action] s1))))"

text \<open>The session an iteration ends with, whether it ends normally or by an exception.\<close>

fun result_session :: "(py_exn \<times> 'a) + 'a \<Rightarrow> 'a" where
  "result_session (Inl (e, s)) = s"
| "result_session (Inr s) = s"

text \<open>
  Line 79: the loop, run on the inputs of the iterations observed so far. \<open>Finished\<close>: the
  loop has ended because \<open>running\<close> is false; \<open>Raised\<close>: an exception has left it;
  \<open>Pending\<close>: the inputs are used up and the loop would go on.
\<close>

datatype 'a outcome = Finished 'a | Raised py_exn 'a | Pending 'a

fun session_of :: "'a outcome \<Rightarrow> 'a" where
  "session_of (Finished s) = s"
| "session_of (Raised e s) = s"
| "session_of (Pending s) = s"

fun main_loop ::
  "('k, 's, 'o, 'r::{plus,zero}, 'f) world \<Rightarrow> ('k, 's, 'o, 'r, 'f) environment \<Rightarrow>
   ('k, 's, 'o, 'r, 'f) session \<Rightarrow> tick_input list \<Rightarrow> ('k, 's, 'o, 'r, 'f) session outcome" where
  "main_loop w env s [] = (if running s then Pending s else Finished s)"
| "main_loop w env s (inp # inps) =
     (if running s then
        (case tick w env inp s of
           Inl (e, s') \<Rightarrow> Raised e s'
         | Inr s' \<Rightarrow> main_loop w env s' inps)
      else Finished s)"

text \<open>
  Lines 44--76: pygame and session set-up, with the initial reset (lines 55--57) and the
  render that gives the window its size (lines 60--66). \<open>Inl\<close>: that render raised.
\<close>

definition init_session ::
  "('k, 's, 'o, 'r::{plus,zero}, 'f) world \<Rightarrow> ('k, 's, 'o, 'r, 'f) environment \<Rightarrow>
   (py_exn \<times> ('k, 's, 'r, 'f) effect list) + ('k, 's, 'o, 'r, 'f) session" where
  "init_session w env =
     (let master = PRNGKey w 42;
          counter0 = 0;
          reset_key = fold_in w master counter0;
          (obs0, state0) = env_reset env reset_key;
          counter1 = counter0 + 1;
          tr = [Pygame_init, Set_caption_title, Call_reset reset_key, Call_render state0]
      in case env_render env state0 of
           Inl e \<Rightarrow> Inl (e, tr)
         | Inr img \<Rightarrow>
             Inr \<lparr>master_key = master, reset_counter = counter1, obs = obs0, state = state0,
                  running = True, pause = False, total_return = 0,
                  trace = tr @ [Set_mode, Print_starting]\<rparr>)"

text \<open>
  Lines 20--154: \<open>main\<close>. It returns (\<open>Returned\<close>), lets an exception through
  (\<open>Propagated\<close>), or is still in its loop when the observed inputs end (\<open>Unfinished\<close>);
  the second component is everything it did. Lines 34--41: an \<open>Exception\<close> of
  \<open>jaxatari.make\<close> is reported and \<open>main\<close> returns.
\<close>

datatype ending = Returned | Propagated py_exn | Unfinished

definition main ::
  "('k, 's, 'o, 'r::{plus,zero}, 'f) world \<Rightarrow> tick_input list \<Rightarrow>
   ending \<times> ('k, 's, 'r, 'f) effect list" where
  "main w inputs =
     (let tr0 = [Print_banner, Print_loading, Call_make]
      in case jaxatari_make w of
           Inl e \<Rightarrow>
             (if is_Exception e then (Returned, tr0 @ [Print_load_error e, Print_traceback])
              else (Propagated e, tr0))
         | Inr env \<Rightarrow>
             (case init_session w env of
                Inl (e, tr) \<Rightarrow> (Propagated e, tr0 @ [Print_loaded] @ tr)
              | Inr s \<Rightarrow>
                  (case main_loop w env s inputs of
                     Finished s' \<Rightarrow>
                       (Returned, tr0 @ [Print_loaded] @ trace s' @ [Pygame_quit, Print_closed])
                   | Raised e s' \<Rightarrow> (Propagated e, tr0 @ [Print_loaded] @ trace s')
                   | Pending s' \<Rightarrow> (Unfinished, tr0 @ [Print_loaded] @ trace s'))))"

text \<open>
  Lines 159--171: the module-level handlers. The result is the process's exit status and
  the complete trace.
\<close>

fun module_handler ::
  "py_exn \<Rightarrow> ('k, 's, 'r, 'f) effect list \<Rightarrow> int option \<times> ('k, 's, 'r, 'f) effect list" where
  "module_handler (ImportError m) tr =
     (Some 1, tr @ [Print_deps_missing (ImportError m), Sys_exit 1])"
| "module_handler (OtherException m) tr =
     (Some 1, tr @ [Print_error (OtherException m), Print_traceback, Sys_exit 1])"
| "module_handler (SystemExit c) tr = (Some c, tr)"

text \<open>
  Lines 14--171: the script run as a program. The exit status is 0 when \<open>main\<close> returns,
  \<open>None\<close> while the loop is still running at the end of the observed inputs.
\<close>

definition script ::
  "('k, 's, 'o, 'r::{plus,zero}, 'f) world \<Rightarrow> tick_input list \<Rightarrow>
   int option \<times> ('k, 's, 'r, 'f) effect list" where
  "script w inputs =
     (case import_error w of
        Some e \<Rightarrow> module_handler e []
      | None \<Rightarrow>
          (case main w inputs of
             (Returned, tr) \<Rightarrow> (Some 0, tr)
           | (Propagated e, tr) \<Rightarrow> module_handler e tr
           | (Unfinished, tr) \<Rightarrow> (None, tr)))"


section \<open>The counter invariant\<close>

text \<open>
  The reset calls made so far are exactly the calls with the keys derived from the counter
  values \<open>0, 1, \<dots>, reset_counter - 1\<close>, in this order: the counter is the number of reset
  calls, and the \<open>n\<close>-th call (from 1) used counter value \<open>n - 1\<close>.
\<close>

definition counter_inv ::
  "('k, 's, 'o, 'r, 'f) world \<Rightarrow> ('k, 's, 'o, 'r, 'f) session \<Rightarrow> bool" where
  "counter_inv w s \<longleftrightarrow>
     0 \<le> reset_counter s \<and>
     reset_counter s = int (length (reset_keys (trace s))) \<and>
     reset_keys (trace s) =
       map (\<lambda>n. fold_in w (master_key s) (int n)) [0..<length (reset_keys (trace s))]"


section \<open>Concrete collaborators for evaluating the model\<close>

text \<open>
  A small environment: the state counts the steps of the episode, every step gives reward
  5, the third step of an episode is terminal, the observation carries the step count as
  its score and has no \<open>lives\<close> attribute, and the frame of a state is the state.
  Keys are integers, \<open>fold_in\<close> combines key and counter injectively.
\<close>

definition example_env :: "(int, nat, nat, real, nat) environment" where
  "example_env =
     \<lparr>env_reset = (\<lambda>k. (0, 0)),
      env_step = (\<lambda>st a. (Suc st, Suc st, 5, Suc st = 3)),
      env_render = (\<lambda>st. Inr st),
      obs_score = (\<lambda>ob. Some (int ob)),
      obs_lives = (\<lambda>ob. None)\<rparr>"

definition example_world :: "(int, nat, nat, real, nat) world" where
  "example_world =
     \<lparr>import_error = None,
      jaxatari_make = Inr example_env,
      PRNGKey = (\<lambda>seed. seed),
      fold_in = (\<lambda>k n. 1000 * k + n)\<rparr>"

text \<open>The session of \<open>example_world\<close> when the loop is entered.\<close>

definition example_start :: "(int, nat, nat, real, nat) session" where
  "example_start =
     \<lparr>master_key = 42, reset_counter = 1, obs = 0, state = 0,
      running = True, pause = False, total_return = 0,
      trace = [Pygame_init, Set_caption_title, Call_reset 42000, Call_render 0,
               Set_mode, Print_starting]\<rparr>"

text \<open>An iteration with no event in which the player holds RIGHT, and one with the given
  events in which no key is held.\<close>

definition move_right :: tick_input where
  "move_right = \<lparr>events = [], human_action = Inr JAXAtariAction_RIGHT\<rparr>"

definition press :: "pg_event list \<Rightarrow> tick_input" where
  "press es = \<lparr>events = es, human_action = Inr JAXAtariAction_NOOP\<rparr>"

text \<open>The same environment with a \<open>render\<close> that raises on the state after one step, and a
  world in which \<open>jaxatari.make\<close> raises.\<close>

definition flaky_env :: "(int, nat, nat, real, nat) environment" where
  "flaky_env =
     example_env\<lparr>env_render :=
       (\<lambda>st. if st = 1 then Inl (OtherException ''render failed'') else Inr st)\<rparr>"

definition flaky_world :: "(int, nat, nat, real, nat) world" where
  "flaky_world = example_world\<lparr>jaxatari_make := Inr flaky_env\<rparr>"

definition gameless_world :: "(int, nat, nat, real, nat) world" where
  "gameless_world =
     example_world\<lparr>jaxatari_make := Inl (OtherException ''unknown game'')\<rparr>"

text \<open>Sessions the example world reaches: after two steps, and paused after one step.\<close>

definition example_two_steps :: "(int, nat, nat, real, nat) session" where
  "example_two_steps =
     session_of (main_loop example_world example_env example_start [move_right, move_right])"

definition example_paused :: "(int, nat, nat, real, nat) session" where
  "example_paused =
     session_of (main_loop example_world example_env example_start
                   [move_right, press [KEYDOWN K_p]])"


section \<open>Basic facts\<close>

lemmas action_codes =
  JAXAtariAction_NOOP_def JAXAtariAction_FIRE_def JAXAtariAction_UP_def
  JAXAtariAction_RIGHT_def JAXAtariAction_LEFT_def JAXAtariAction_DOWN_def
  Pacman_NOOP_def Pacman_UP_def Pacman_RIGHT_def Pacman_LEFT_def Pacman_DOWN_def

lemmas example_defs =
  example_env_def example_world_def example_start_def move_right_def press_def
  flaky_env_def flaky_world_def gameless_world_def

lemmas loop_defs =
  tick_def render_and_show_def step_and_account_def emit_def
  pacman_action_def dict_get_def action_map_def Let_def

lemma reset_keys_simps [simp]:
  "reset_keys [] = []"
  "reset_keys (e # tr) = reset_key_of e @ reset_keys tr"
  "reset_keys (tr @ tr') = reset_keys tr @ reset_keys tr'"
  by (simp_all add: reset_keys_def)

lemma step_calls_simps [simp]:
  "step_calls [] = []"
  "step_calls (e # tr) = step_call_of e @ step_calls tr"
  "step_calls (tr @ tr') = step_calls tr @ step_calls tr'"
  by (simp_all add: step_calls_def)

lemma rendered_simps [simp]:
  "rendered [] = []"
  "rendered (e # tr) = render_call_of e @ rendered tr"
  "rendered (tr @ tr') = rendered tr @ rendered tr'"
  by (simp_all add: rendered_def)

lemma polls_simps [simp]:
  "polls [] = []"
  "polls (e # tr) = poll_of e @ polls tr"
  "polls (tr @ tr') = polls tr @ polls tr'"
  by (simp_all add: polls_def)

lemma emit_fields [simp]:
  "master_key (emit es s) = master_key s"
  "reset_counter (emit es s) = reset_counter s"
  "obs (emit es s) = obs s"
  "state (emit es s) = state s"
  "running (emit es s) = running s"
  "pause (emit es s) = pause s"
  "total_return (emit es s) = total_return s"
  "trace (emit es s) = trace s @ es"
  by (simp_all add: emit_def)


subsection \<open>The manual reset (lines 92--97)\<close>

lemma manual_reset_fields:
  "total_return (handle_event w env s (KEYDOWN K_r)) = 0"
  "reset_counter (handle_event w env s (KEYDOWN K_r)) = reset_counter s + 1"
  "master_key (handle_event w env s (KEYDOWN K_r)) = master_key s"
  "state (handle_event w env s (KEYDOWN K_r)) =
     snd (env_reset env (fold_in w (master_key s) (reset_counter s)))"
  "trace (handle_event w env s (KEYDOWN K_r)) =
     trace s @ [Call_reset (fold_in w (master_key s) (reset_counter s)), Print_game_reset]"
  by (simp_all add: Let_def split: prod.splits)

lemma other_event_fields:
  assumes "e \<noteq> KEYDOWN K_r"
  shows "total_return (handle_event w env s e) = total_return s"
    and "reset_counter (handle_event w env s e) = reset_counter s"
    and "state (handle_event w env s e) = state s"
    and "reset_keys (trace (handle_event w env s e)) = reset_keys (trace s)"
  using assms by (induction w env s e rule: handle_event.induct) simp_all

lemma handle_event_master_key [simp]:
  "master_key (handle_event w env s e) = master_key s"
  by (induction w env s e rule: handle_event.induct) (simp_all add: Let_def split: prod.splits)

lemma handle_event_no_step_poll_render:
  "step_calls (trace (handle_event w env s e)) = step_calls (trace s)"
  "polls (trace (handle_event w env s e)) = polls (trace s)"
  "rendered (trace (handle_event w env s e)) = rendered (trace s)"
  by (induction w env s e rule: handle_event.induct; simp add: Let_def split: prod.splits)+


subsection \<open>The step and the automatic reset (lines 115--146)\<close>

lemma step_done:
  assumes "env_step env (state s) (pacman_action a) = (ob, st, r, True)"
  shows "total_return (step_and_account w env a s) = 0"
    and "reset_counter (step_and_account w env a s) = reset_counter s + 1"
    and "master_key (step_and_account w env a s) = master_key s"
    and "running (step_and_account w env a s) = running s"
    and "pause (step_and_account w env a s) = pause s"
    and "state (step_and_account w env a s) =
           snd (env_reset env (fold_in w (master_key s) (reset_counter s)))"
    and "trace (step_and_account w env a s) =
           trace s @
           [Call_step (state s) (pacman_action a),
            Set_caption (case obs_score env ob of Some v \<Rightarrow> v | None \<Rightarrow> 0)
                        (case obs_lives env ob of Some v \<Rightarrow> v | None \<Rightarrow> 0)
                        (total_return s + r),
            Print_game_over (case obs_score env ob of Some v \<Rightarrow> v | None \<Rightarrow> 0)
                            (total_return s + r),
            Call_reset (fold_in w (master_key s) (reset_counter s))]"
  using assms by (simp_all add: step_and_account_def Let_def split: prod.splits)

lemma step_not_done:
  assumes "env_step env (state s) (pacman_action a) = (ob, st, r, False)"
  shows "total_return (step_and_account w env a s) = total_return s + r"
    and "reset_counter (step_and_account w env a s) = reset_counter s"
    and "master_key (step_and_account w env a s) = master_key s"
    and "running (step_and_account w env a s) = running s"
    and "pause (step_and_account w env a s) = pause s"
    and "state (step_and_account w env a s) = st"
    and "trace (step_and_account w env a s) =
           trace s @
           [Call_step (state s) (pacman_action a),
            Set_caption (case obs_score env ob of Some v \<Rightarrow> v | None \<Rightarrow> 0)
                        (case obs_lives env ob of Some v \<Rightarrow> v | None \<Rightarrow> 0)
                        (total_return s + r)]"
  using assms by (simp_all add: step_and_account_def Let_def split: prod.splits)


lemma step_and_account_frame [simp]:
  "master_key (step_and_account w env a s) = master_key s"
  "running (step_and_account w env a s) = running s"
  "pause (step_and_account w env a s) = pause s"
  by (simp_all add: step_and_account_def Let_def split: prod.splits)

lemma step_and_account_calls:
  "step_calls (trace (step_and_account w env a s)) =
     step_calls (trace s) @ [(state s, pacman_action a)]"
  "polls (trace (step_and_account w env a s)) = polls (trace s)"
  "rendered (trace (step_and_account w env a s)) = rendered (trace s)"
  by (simp_all add: step_and_account_def Let_def split: prod.splits)


subsection \<open>Rendering (lines 101--103 and 149--151)\<close>

lemma render_and_show_fields [simp]:
  "master_key (result_session (render_and_show env s)) = master_key s"
  "reset_counter (result_session (render_and_show env s)) = reset_counter s"
  "state (result_session (render_and_show env s)) = state s"
  "total_return (result_session (render_and_show env s)) = total_return s"
  "running (result_session (render_and_show env s)) = running s"
  "pause (result_session (render_and_show env s)) = pause s"
  by (simp_all add: render_and_show_def split: sum.splits)

lemma render_and_show_calls [simp]:
  "reset_keys (trace (result_session (render_and_show env s))) = reset_keys (trace s)"
  "step_calls (trace (result_session (render_and_show env s))) = step_calls (trace s)"
  "polls (trace (result_session (render_and_show env s))) = polls (trace s)"
  "rendered (trace (result_session (render_and_show env s))) = rendered (trace s) @ [state s]"
  by (simp_all add: render_and_show_def split: sum.splits)

lemma render_and_show_raises:
  assumes "env_render env (state s) = Inl e"
  shows "render_and_show env s = Inl (e, emit [Call_render (state s)] s)"
  using assms by (simp add: render_and_show_def)

lemma render_and_show_returns:
  assumes "env_render env (state s) = Inr img"
  shows "render_and_show env s =
           Inr (emit [Call_render (state s), Update_pygame img, Clock_tick] s)"
  using assms by (simp add: render_and_show_def)


subsection \<open>The events of one iteration (line 81)\<close>

lemma handle_events_master_key [simp]:
  "master_key (handle_events w env s es) = master_key s"
  by (induction es arbitrary: s) simp_all

lemma handle_events_step_calls [simp]:
  "step_calls (trace (handle_events w env s es)) = step_calls (trace s)"
  by (induction es arbitrary: s) (simp_all add: handle_event_no_step_poll_render)

lemma handle_events_polls [simp]:
  "polls (trace (handle_events w env s es)) = polls (trace s)"
  by (induction es arbitrary: s) (simp_all add: handle_event_no_step_poll_render)

lemma handle_events_rendered [simp]:
  "rendered (trace (handle_events w env s es)) = rendered (trace s)"
  by (induction es arbitrary: s) (simp_all add: handle_event_no_step_poll_render)

lemma handle_events_without_reset:
  assumes "KEYDOWN K_r \<notin> set es"
  shows "total_return (handle_events w env s es) = total_return s \<and>
         reset_counter (handle_events w env s es) = reset_counter s \<and>
         state (handle_events w env s es) = state s \<and>
         reset_keys (trace (handle_events w env s es)) = reset_keys (trace s)"
  using assms
proof (induction es arbitrary: s)
  case Nil
  show ?case by simp
next
  case (Cons e es)
  from Cons.prems have ne: "e \<noteq> KEYDOWN K_r" and rest: "KEYDOWN K_r \<notin> set es"
    by auto
  from Cons.IH [OF rest, of "handle_event w env s e"] other_event_fields [OF ne, of w env s]
  show ?case by simp
qed


subsection \<open>The counter invariant is kept\<close>

lemma counter_inv_after_reset:
  assumes "counter_inv w s"
    and "master_key s' = master_key s"
    and "reset_counter s' = reset_counter s + 1"
    and "reset_keys (trace s') =
           reset_keys (trace s) @ [fold_in w (master_key s) (reset_counter s)]"
  shows "counter_inv w s'"
  using assms unfolding counter_inv_def by simp

lemma counter_inv_unchanged:
  assumes "counter_inv w s"
    and "master_key s' = master_key s"
    and "reset_counter s' = reset_counter s"
    and "reset_keys (trace s') = reset_keys (trace s)"
  shows "counter_inv w s'"
  using assms unfolding counter_inv_def by simp

lemma handle_event_counter_inv:
  assumes "counter_inv w s"
  shows "counter_inv w (handle_event w env s e)"
proof (cases "e = KEYDOWN K_r")
  case True
  show ?thesis unfolding True
    by (rule counter_inv_after_reset [OF assms]) (simp_all add: Let_def split: prod.splits)
next
  case False
  with assms show ?thesis
    by (auto intro!: counter_inv_unchanged [of w s] simp: other_event_fields)
qed

lemma handle_events_counter_inv:
  assumes "counter_inv w s"
  shows "counter_inv w (handle_events w env s es)"
  using assms by (induction es arbitrary: s) (simp_all add: handle_event_counter_inv)

lemma step_and_account_counter_inv:
  assumes "counter_inv w s"
  shows "counter_inv w (step_and_account w env a s)"
proof -
  obtain ob st r d where res: "env_step env (state s) (pacman_action a) = (ob, st, r, d)"
    by (cases "env_step env (state s) (pacman_action a)") auto
  show ?thesis
  proof (cases d)
    case True
    with res assms show ?thesis
      by (auto intro!: counter_inv_after_reset [of w s] simp: step_done)
  next
    case False
    with res assms show ?thesis
      by (auto intro!: counter_inv_unchanged [of w s] simp: step_not_done)
  qed
qed

lemma render_and_show_counter_inv:
  assumes "counter_inv w s"
  shows "counter_inv w (result_session (render_and_show env s))"
  using assms by (auto intro!: counter_inv_unchanged [of w s])

lemma tick_counter_inv:
  assumes "counter_inv w s"
  shows "counter_inv w (result_session (tick w env inp s))"
proof -
  let ?s1 = "handle_events w env (emit [Event_get] s) (events inp)"
  have "counter_inv w (emit [Event_get] s)"
    using assms by (auto intro!: counter_inv_unchanged [of w s])
  then have s1: "counter_inv w ?s1"
    by (rule handle_events_counter_inv)
  then have polled: "counter_inv w (emit [Get_human_action] ?s1)"
    by (auto intro!: counter_inv_unchanged [of w ?s1])
  then have quit: "counter_inv w ((emit [Get_human_action] ?s1)\<lparr>running := False\<rparr>)"
    by (auto intro!: counter_inv_unchanged [of w "emit [Get_human_action] ?s1"])
  show ?thesis
  proof (cases "pause ?s1")
    case True
    with s1 show ?thesis
      by (simp add: tick_def Let_def render_and_show_counter_inv)
  next
    case False
    show ?thesis
    proof (cases "human_action inp")
      case (Inl e)
      with False polled quit show ?thesis
        by (cases e) (simp_all add: tick_def Let_def)
    next
      case (Inr a)
      with False polled show ?thesis
        by (simp add: tick_def Let_def render_and_show_counter_inv step_and_account_counter_inv)
    qed
  qed
qed

lemma tick_master_key:
  "master_key (result_session (tick w env inp s)) = master_key s"
proof (cases "human_action inp")
  case (Inl e)
  then show ?thesis by (cases e) (simp_all add: tick_def Let_def)
next
  case (Inr a)
  then show ?thesis by (simp add: tick_def Let_def)
qed

lemma main_loop_counter_inv:
  assumes "counter_inv w s"
  shows "counter_inv w (session_of (main_loop w env s inputs))"
  using assms
proof (induction inputs arbitrary: s)
  case Nil
  then show ?case by simp
next
  case (Cons inp inputs)
  from Cons.prems have step: "counter_inv w (result_session (tick w env inp s))"
    by (rule tick_counter_inv)
  show ?case
  proof (cases "tick w env inp s")
    case (Inl raised)
    with step Cons.prems show ?thesis by (cases raised) simp
  next
    case (Inr s')
    with step have "counter_inv w s'" by simp
    then have "counter_inv w (session_of (main_loop w env s' inputs))" by (rule Cons.IH)
    with Inr Cons.prems show ?thesis by simp
  qed
qed

lemma main_loop_master_key:
  "master_key (session_of (main_loop w env s inputs)) = master_key s"
proof (induction inputs arbitrary: s)
  case Nil
  show ?case by simp
next
  case (Cons inp inputs)
  have mk: "master_key (result_session (tick w env inp s)) = master_key s"
    by (rule tick_master_key)
  show ?case
  proof (cases "tick w env inp s")
    case (Inl raised)
    with mk show ?thesis by (cases raised) simp
  next
    case (Inr s')
    with mk Cons.IH [of s'] show ?thesis by simp
  qed
qed

lemma init_session_fields:
  assumes "init_session w env = Inr s0"
  shows "reset_counter s0 = 1"
    and "master_key s0 = PRNGKey w 42"
    and "total_return s0 = 0"
    and "running s0" and "\<not> pause s0"
    and "reset_keys (trace s0) = [fold_in w (PRNGKey w 42) 0]"
  using assms
  by (auto simp: init_session_def Let_def split: prod.splits sum.splits)

lemma init_session_counter_inv:
  assumes "init_session w env = Inr s0"
  shows "counter_inv w s0"
  using init_session_fields [OF assms] by (simp add: counter_inv_def)


subsection \<open>The two branches of an iteration, and the example sessions\<close>

lemma example_two_steps_eq:
  "example_two_steps =
     \<lparr>master_key = 42, reset_counter = 1, obs = 2, state = 2, running = True,
      pause = False, total_return = 10,
      trace =
        [Pygame_init, Set_caption_title, Call_reset 42000, Call_render 0,
         Set_mode, Print_starting, Event_get, Get_human_action,
         Call_step 0 2, Set_caption 1 0 5, Call_render 1, Update_pygame 1,
         Clock_tick, Event_get, Get_human_action, Call_step 1 2,
         Set_caption 2 0 10, Call_render 2, Update_pygame 2, Clock_tick]\<rparr>"
  by (simp add: example_two_steps_def loop_defs example_defs action_codes)

lemma example_paused_eq:
  "example_paused =
     \<lparr>master_key = 42, reset_counter = 1, obs = 1, state = 1, running = True,
      pause = True, total_return = 5,
      trace =
        [Pygame_init, Set_caption_title, Call_reset 42000, Call_render 0,
         Set_mode, Print_starting, Event_get, Get_human_action,
         Call_step 0 2, Set_caption 1 0 5, Call_render 1, Update_pygame 1,
         Clock_tick, Event_get, Print_paused True, Call_render 1,
         Update_pygame 1, Clock_tick]\<rparr>"
  by (simp add: example_paused_def loop_defs example_defs action_codes)

lemma example_init: "init_session example_world example_env = Inr example_start"
  by (simp add: init_session_def example_defs Let_def)

lemma tick_paused:
  assumes "pause (handle_events w env (emit [Event_get] s) (events inp))"
  shows "tick w env inp s =
           render_and_show env (handle_events w env (emit [Event_get] s) (events inp))"
  using assms by (simp add: tick_def Let_def)

lemma tick_active:
  assumes "\<not> pause (handle_events w env (emit [Event_get] s) (events inp))"
    and "human_action inp = Inr a"
  shows "tick w env inp s =
           render_and_show env
             (step_and_account w env a
                (emit [Get_human_action]
                   (handle_events w env (emit [Event_get] s) (events inp))))"
  using assms by (simp add: tick_def Let_def)


lemma example_three_steps:
  "session_of (main_loop example_world example_env example_start
                 [move_right, move_right, move_right]) =
     \<lparr>master_key = 42, reset_counter = 2, obs = 0, state = 0, running = True,
      pause = False, total_return = 0,
      trace =
        [Pygame_init, Set_caption_title, Call_reset 42000, Call_render 0,
         Set_mode, Print_starting, Event_get, Get_human_action,
         Call_step 0 2, Set_caption 1 0 5, Call_render 1, Update_pygame 1,
         Clock_tick, Event_get, Get_human_action, Call_step 1 2,
         Set_caption 2 0 10, Call_render 2, Update_pygame 2, Clock_tick,
         Event_get, Get_human_action, Call_step 2 2, Set_caption 3 0 15,
         Print_game_over 3 15, Call_reset 42001, Call_render 0,
         Update_pygame 0, Clock_tick]\<rparr>"
  by (simp add: loop_defs example_defs action_codes)


lemma emit_calls [simp]:
  "step_calls (trace (emit [Event_get] s)) = step_calls (trace s)"
  "polls (trace (emit [Event_get] s)) = polls (trace s)"
  "rendered (trace (emit [Event_get] s)) = rendered (trace s)"
  "rendered (trace (emit [Get_human_action] s)) = rendered (trace s)"
  by simp_all


lemma main_loop_append:
  assumes "main_loop w env s0 pre = Pending s"
  shows "main_loop w env s0 (pre @ later) = main_loop w env s later"
  using assms
proof (induction pre arbitrary: s0)
  case Nil
  then show ?case by (simp split: if_splits)
next
  case (Cons inp pre)
  show ?case
  proof (cases "tick w env inp s0")
    case (Inl raised)
    with Cons.prems show ?thesis by (cases raised) (simp split: if_splits)
  next
    case (Inr s1)
    with Cons.prems have "running s0" and "main_loop w env s1 pre = Pending s"
      by (simp_all split: if_splits)
    with Cons.IH [of s1] Inr show ?thesis by simp
  qed
qed

lemma flaky_init: "init_session flaky_world flaky_env = Inr example_start"
  by (simp add: init_session_def example_defs Let_def)

lemma flaky_run:
  "main_loop flaky_world flaky_env example_start [move_right, move_right] =
     Raised (OtherException ''render failed'')
       \<lparr>master_key = 42, reset_counter = 1, obs = 1, state = 1, running = True,
        pause = False, total_return = 5,
        trace =
          [Pygame_init, Set_caption_title, Call_reset 42000, Call_render 0, Set_mode,
           Print_starting, Event_get, Get_human_action, Call_step 0 2,
           Set_caption 1 0 5, Call_render 1]\<rparr>"
  by (simp add: loop_defs example_defs action_codes)


section \<open>Properties of the action translation\<close>

lemma pacman_action_in_table:
  "pacman_action 0 = 0" "pacman_action 2 = 1" "pacman_action 3 = 2"
  "pacman_action 4 = 3" "pacman_action 5 = 4"
  by (simp_all add: pacman_action_def dict_get_def action_map_def)

lemma pacman_action_default:
  assumes "a \<noteq> 0" "a \<noteq> 2" "a \<noteq> 3" "a \<noteq> 4" "a \<noteq> 5"
  shows "pacman_action a = 0"
  using assms by (simp add: pacman_action_def dict_get_def action_map_def)

text \<open>
  Claim C6. The translation is a total function from source action codes to Pacman action
  codes (its result type has no error branch: \<open>dict.get\<close> with a default never raises). It
  reproduces the table NOOP to NOOP, UP to UP, RIGHT to RIGHT, LEFT to LEFT, DOWN to DOWN,
  and every source value outside the table, FIRE and 99 among them, is translated to
  Pacman's NOOP.
\<close>

theorem action_translation_table:
  "pacman_action JAXAtariAction_NOOP = Pacman_NOOP \<and>
   pacman_action JAXAtariAction_UP = Pacman_UP \<and>
   pacman_action JAXAtariAction_RIGHT = Pacman_RIGHT \<and>
   pacman_action JAXAtariAction_LEFT = Pacman_LEFT \<and>
   pacman_action JAXAtariAction_DOWN = Pacman_DOWN \<and>
   (\<forall>a. a \<notin> {JAXAtariAction_NOOP, JAXAtariAction_UP, JAXAtariAction_RIGHT,
               JAXAtariAction_LEFT, JAXAtariAction_DOWN}
        \<longrightarrow> pacman_action a = Pacman_NOOP)"
  by (simp add: action_codes pacman_action_in_table pacman_action_default)

theorem action_translation_table_witness:
  "(99::int) \<notin> {JAXAtariAction_NOOP, JAXAtariAction_UP, JAXAtariAction_RIGHT,
               JAXAtariAction_LEFT, JAXAtariAction_DOWN} \<and>
   pacman_action 99 = Pacman_NOOP \<and>
   JAXAtariAction_FIRE \<notin> {JAXAtariAction_NOOP, JAXAtariAction_UP, JAXAtariAction_RIGHT,
               JAXAtariAction_LEFT, JAXAtariAction_DOWN} \<and>
   pacman_action JAXAtariAction_FIRE = Pacman_NOOP"
proof -
  have out99: "(99::int) \<notin> {JAXAtariAction_NOOP, JAXAtariAction_UP, JAXAtariAction_RIGHT,
               JAXAtariAction_LEFT, JAXAtariAction_DOWN}"
    by (simp add: action_codes)
  have outfire: "JAXAtariAction_FIRE \<notin> {JAXAtariAction_NOOP, JAXAtariAction_UP,
               JAXAtariAction_RIGHT, JAXAtariAction_LEFT, JAXAtariAction_DOWN}"
    by (simp add: action_codes)
  from action_translation_table
  have dflt: "\<forall>a. a \<notin> {JAXAtariAction_NOOP, JAXAtariAction_UP, JAXAtariAction_RIGHT,
               JAXAtariAction_LEFT, JAXAtariAction_DOWN} \<longrightarrow> pacman_action a = Pacman_NOOP"
    by blast
  from dflt out99 have "pacman_action 99 = Pacman_NOOP" by blast
  moreover from dflt outfire have "pacman_action JAXAtariAction_FIRE = Pacman_NOOP" by blast
  ultimately show ?thesis using out99 outfire by blast
qed


section \<open>Properties of the scripted action source\<close>

lemma scripted_action_first_block:
  assumes "0 \<le> i" "i \<le> 9"
  shows "scripted_action i = 1"
proof -
  from assms have "i div 10 = 0" by simp
  then show ?thesis by (simp add: scripted_action_def)
qed

lemma scripted_action_same_block:
  assumes "i div 10 = j div 10"
  shows "scripted_action i = scripted_action j"
  using assms by (simp add: scripted_action_def)

lemma next_index_block:
  fixes i :: int
  shows "(i + 1) div 10 = (if (i + 1) mod 10 = 0 then i div 10 + 1 else i div 10)"
proof -
  define r where "r = i mod 10"
  have rb: "0 \<le> r" "r < 10" by (simp_all add: r_def)
  have d: "(i + 1) div 10 = i div 10 + (r + 1) div 10"
    using div_add1_eq [of i 1 10] by (simp add: r_def)
  have m: "(i + 1) mod 10 = (r + 1) mod 10"
    unfolding r_def by (simp add: mod_add_left_eq)
  show ?thesis
  proof (cases "r = 9")
    case True
    with d m show ?thesis by simp
  next
    case False
    with rb have small: "0 \<le> r + 1" "r + 1 < 10" "r + 1 \<noteq> 0" by simp_all
    then have "(r + 1) div 10 = 0" "(r + 1) mod 10 = r + 1" by simp_all
    with d m small show ?thesis by simp
  qed
qed

lemma consecutive_blocks_differ:
  fixes q :: int
  shows "(q + 1) mod 4 \<noteq> q mod 4"
  by arith

lemma scripted_action_changes_at:
  "(scripted_action (i + 1) \<noteq> scripted_action i) = ((i + 1) mod 10 = 0)"
  by (simp add: scripted_action_def next_index_block consecutive_blocks_differ)

lemma scripted_action_next_block:
  "scripted_action (i + 10) = scripted_action i mod 4 + 1"
proof -
  have "(i div 10 + 1) mod 4 = (i div 10 mod 4 + 1) mod 4"
    by (simp add: mod_add_left_eq)
  then show ?thesis by (simp add: scripted_action_def)
qed

lemma scripted_action_period:
  "scripted_action (i + 40) = scripted_action i"
proof -
  have "(i + 40) div 10 = i div 10 + 4" by simp
  then show ?thesis by (simp add: scripted_action_def)
qed

lemma scripted_action_range:
  "1 \<le> scripted_action i \<and> scripted_action i \<le> 4"
proof -
  have "0 \<le> (i div 10) mod 4" "(i div 10) mod 4 < 4" by simp_all
  then show ?thesis by (simp add: scripted_action_def)
qed

text \<open>
  Claim C9. The scripted action is a function of the step index alone, cycling with a block
  size of 10. Every step index from 0 to 9 yields the same action (the one of step 0, which
  is 1), and the action at index 10 (which is 2) differs from the action at index 9. The
  rule holds at every index, not only on the first block: two indices of the same block of
  ten yield the same action; the action changes from one index to the next exactly when
  the next index is a multiple of 10; ten indices later the action is the next one in the
  cycle 1, 2, 3, 4, 1; forty indices later it is the same again; and it is always one of
  1, 2, 3, 4.
\<close>

theorem scripted_action_block_of_ten:
  "(\<forall>i. 0 \<le> i \<and> i \<le> 9 \<longrightarrow> scripted_action i = scripted_action 0) \<and>
   scripted_action 0 = 1 \<and> scripted_action 10 = 2 \<and>
   scripted_action 10 \<noteq> scripted_action 9 \<and>
   (\<forall>i j. i div 10 = j div 10 \<longrightarrow> scripted_action i = scripted_action j) \<and>
   (\<forall>i. (scripted_action (i + 1) \<noteq> scripted_action i) = ((i + 1) mod 10 = 0)) \<and>
   (\<forall>i. scripted_action (i + 10) = scripted_action i mod 4 + 1) \<and>
   (\<forall>i. scripted_action (i + 40) = scripted_action i) \<and>
   (\<forall>i. 1 \<le> scripted_action i \<and> scripted_action i \<le> 4)"
proof -
  have first: "\<forall>i. 0 \<le> i \<and> i \<le> 9 \<longrightarrow> scripted_action i = scripted_action 0"
    by (simp add: scripted_action_first_block)
  have vals: "scripted_action 0 = 1" "scripted_action 10 = 2"
    "scripted_action 10 \<noteq> scripted_action 9"
    by (simp_all add: scripted_action_def)
  have blocks: "\<forall>i j. i div 10 = j div 10 \<longrightarrow> scripted_action i = scripted_action j"
    using scripted_action_same_block by blast
  have boundaries:
    "\<forall>i. (scripted_action (i + 1) \<noteq> scripted_action i) = ((i + 1) mod 10 = 0)"
    using scripted_action_changes_at by blast
  have cycle: "\<forall>i. scripted_action (i + 10) = scripted_action i mod 4 + 1"
    using scripted_action_next_block by blast
  have period: "\<forall>i. scripted_action (i + 40) = scripted_action i"
    using scripted_action_period by blast
  have range: "\<forall>i. 1 \<le> scripted_action i \<and> scripted_action i \<le> 4"
    using scripted_action_range by blast
  from first vals blocks boundaries cycle period range show ?thesis by blast
qed

theorem scripted_action_block_of_ten_witness:
  "(0::int) \<le> 7 \<and> (7::int) \<le> 9 \<and> scripted_action 7 = scripted_action 0 \<and>
   scripted_action 10 \<noteq> scripted_action 9 \<and>
   (10::int) div 10 = 14 div 10 \<and> scripted_action 14 = 2 \<and>
   scripted_action 14 = scripted_action 13 \<and>
   scripted_action 20 \<noteq> scripted_action 19 \<and>
   scripted_action 20 = 3 \<and>
   scripted_action 47 = scripted_action 7"
proof -
  have same: "\<forall>i. 0 \<le> i \<and> i \<le> 9 \<longrightarrow> scripted_action i = scripted_action 0"
    and ten: "scripted_action 10 = 2"
    and change: "scripted_action 10 \<noteq> scripted_action 9"
    and blocks: "\<forall>i j. i div 10 = j div 10 \<longrightarrow> scripted_action i = scripted_action j"
    and boundaries:
      "\<forall>i. (scripted_action (i + 1) \<noteq> scripted_action i) = ((i + 1) mod 10 = 0)"
    and cycle: "\<forall>i. scripted_action (i + 10) = scripted_action i mod 4 + 1"
    and period: "\<forall>i. scripted_action (i + 40) = scripted_action i"
    using scripted_action_block_of_ten by - (elim conjE, assumption)+
  have le1: "(0::int) \<le> 7" and le2: "(7::int) \<le> 9" by simp_all
  from spec [OF same, of 7] le1 le2 have a7: "scripted_action 7 = scripted_action 0"
    by simp
  have same_block: "(10::int) div 10 = 14 div 10" by simp
  from spec [OF spec [OF blocks, of 10], of 14] same_block
  have "scripted_action 10 = scripted_action 14" by (rule mp)
  with ten have a14: "scripted_action 14 = 2" by simp
  from spec [OF boundaries, of 13] have a13: "scripted_action 14 = scripted_action 13"
    by simp
  from spec [OF boundaries, of 19] have a19: "scripted_action 20 \<noteq> scripted_action 19"
    by simp
  from spec [OF cycle, of 10] ten have a20: "scripted_action 20 = 3" by simp
  from spec [OF period, of 7] have a47: "scripted_action 47 = scripted_action 7" by simp
  show ?thesis
    by (intro conjI) (fact le1 le2 a7 change same_block a14 a13 a19 a20 a47)+
qed


section \<open>Resets\<close>

text \<open>
  Claim C2. Every reset call of the loop sets the cumulative reward to 0 and increments
  \<open>reset_counter\<close> by exactly 1, in every session state: the manual reset (key R,
  lines 92--97) and the automatic reset after a step that returns \<open>done\<close> (lines
  141--146) each make one reset call, with the key derived from the old counter value.
  They are the only reset calls of the loop: no other event and no step that is not
  \<open>done\<close> calls reset or changes the counter.
\<close>

theorem reset_zeroes_reward_and_counts_once:
  "(total_return (handle_event w env s (KEYDOWN K_r)) = 0 \<and>
    reset_counter (handle_event w env s (KEYDOWN K_r)) = reset_counter s + 1 \<and>
    reset_keys (trace (handle_event w env s (KEYDOWN K_r))) =
      reset_keys (trace s) @ [fold_in w (master_key s) (reset_counter s)]) \<and>
   (\<forall>ob st r. env_step env (state s) (pacman_action a) = (ob, st, r, True) \<longrightarrow>
      total_return (step_and_account w env a s) = 0 \<and>
      reset_counter (step_and_account w env a s) = reset_counter s + 1 \<and>
      reset_keys (trace (step_and_account w env a s)) =
        reset_keys (trace s) @ [fold_in w (master_key s) (reset_counter s)]) \<and>
   (e \<noteq> KEYDOWN K_r \<longrightarrow>
      reset_keys (trace (handle_event w env s e)) = reset_keys (trace s) \<and>
      reset_counter (handle_event w env s e) = reset_counter s) \<and>
   (\<forall>ob st r. env_step env (state s) (pacman_action a) = (ob, st, r, False) \<longrightarrow>
      reset_keys (trace (step_and_account w env a s)) = reset_keys (trace s) \<and>
      reset_counter (step_and_account w env a s) = reset_counter s)"
proof -
  have manual: "total_return (handle_event w env s (KEYDOWN K_r)) = 0 \<and>
    reset_counter (handle_event w env s (KEYDOWN K_r)) = reset_counter s + 1 \<and>
    reset_keys (trace (handle_event w env s (KEYDOWN K_r))) =
      reset_keys (trace s) @ [fold_in w (master_key s) (reset_counter s)]"
    by (simp add: Let_def split: prod.splits)
  have auto_reset: "\<forall>ob st r. env_step env (state s) (pacman_action a) = (ob, st, r, True) \<longrightarrow>
      total_return (step_and_account w env a s) = 0 \<and>
      reset_counter (step_and_account w env a s) = reset_counter s + 1 \<and>
      reset_keys (trace (step_and_account w env a s)) =
        reset_keys (trace s) @ [fold_in w (master_key s) (reset_counter s)]"
    by (simp add: step_done)
  have others: "e \<noteq> KEYDOWN K_r \<longrightarrow>
      reset_keys (trace (handle_event w env s e)) = reset_keys (trace s) \<and>
      reset_counter (handle_event w env s e) = reset_counter s"
    by (simp add: other_event_fields)
  have going_on: "\<forall>ob st r. env_step env (state s) (pacman_action a) = (ob, st, r, False) \<longrightarrow>
      reset_keys (trace (step_and_account w env a s)) = reset_keys (trace s) \<and>
      reset_counter (step_and_account w env a s) = reset_counter s"
    by (simp add: step_not_done)
  from manual auto_reset others going_on show ?thesis by blast
qed

theorem reset_zeroes_reward_and_counts_once_witness:
  "total_return (handle_event example_world example_env example_start (KEYDOWN K_r)) = 0 \<and>
   reset_counter example_start = 1 \<and>
   reset_counter (handle_event example_world example_env example_start (KEYDOWN K_r)) = 2 \<and>
   env_step example_env (state example_two_steps) (pacman_action JAXAtariAction_RIGHT)
     = (3, 3, 5, True) \<and>
   total_return example_two_steps = 10 \<and>
   reset_counter example_two_steps = 1 \<and>
   total_return (step_and_account example_world example_env JAXAtariAction_RIGHT
                   example_two_steps) = 0 \<and>
   reset_counter (step_and_account example_world example_env JAXAtariAction_RIGHT
                    example_two_steps) = 2 \<and>
   KEYDOWN K_p \<noteq> KEYDOWN K_r \<and>
   reset_counter (handle_event example_world example_env example_start (KEYDOWN K_p)) = 1 \<and>
   env_step example_env (state example_start) (pacman_action JAXAtariAction_RIGHT)
     = (1, 1, 5, False) \<and>
   reset_counter (step_and_account example_world example_env JAXAtariAction_RIGHT
                    example_start) = 1"
proof -
  have done_step:
    "env_step example_env (state example_two_steps) (pacman_action JAXAtariAction_RIGHT)
       = (3, 3, 5, True)"
    by (simp add: example_two_steps_eq example_env_def)
  have going_step:
    "env_step example_env (state example_start) (pacman_action JAXAtariAction_RIGHT)
       = (1, 1, 5, False)"
    by (simp add: example_start_def example_env_def)
  have other_key: "KEYDOWN K_p \<noteq> KEYDOWN K_r" by simp
  have before: "reset_counter example_start = 1" "reset_counter example_two_steps = 1"
    "total_return example_two_steps = 10"
    by (simp_all add: example_start_def example_two_steps_eq)
  note manual = reset_zeroes_reward_and_counts_once
    [of example_world example_env example_start JAXAtariAction_RIGHT "KEYDOWN K_p"]
  note automatic = reset_zeroes_reward_and_counts_once
    [of example_world example_env example_two_steps JAXAtariAction_RIGHT "KEYDOWN K_p"]
  from manual done_step going_step other_key before automatic
  show ?thesis by simp
qed


section \<open>The end of an episode\<close>

text \<open>
  Claim C1. When the step of lines 130--146 returns \<open>done\<close> with reward \<open>r\<close> while the
  cumulative reward is \<open>c\<close>, the script calls step, writes \<open>c + r\<close> to the caption, reports
  the final cumulative reward \<open>c + r\<close> (15 from \<open>c = 10\<close> and \<open>r = 5\<close>) and then calls
  reset, in this order; afterwards the cumulative reward is 0 and \<open>reset_counter\<close> is
  larger by exactly 1, also after the render that ends the iteration.
\<close>

theorem done_step_reports_total_then_resets:
  assumes "env_step env (state s) (pacman_action a) = (ob, st, r, True)"
  shows "trace (step_and_account w env a s) =
           trace s @
           [Call_step (state s) (pacman_action a),
            Set_caption (case obs_score env ob of Some v \<Rightarrow> v | None \<Rightarrow> 0)
                        (case obs_lives env ob of Some v \<Rightarrow> v | None \<Rightarrow> 0)
                        (total_return s + r),
            Print_game_over (case obs_score env ob of Some v \<Rightarrow> v | None \<Rightarrow> 0)
                            (total_return s + r),
            Call_reset (fold_in w (master_key s) (reset_counter s))] \<and>
         total_return (step_and_account w env a s) = 0 \<and>
         reset_counter (step_and_account w env a s) = reset_counter s + 1 \<and>
         total_return (result_session (render_and_show env (step_and_account w env a s))) = 0 \<and>
         reset_counter (result_session (render_and_show env (step_and_account w env a s)))
           = reset_counter s + 1"
  using step_done [OF assms, of w] by simp

theorem done_step_reports_total_then_resets_witness:
  "env_step example_env (state example_two_steps) (pacman_action JAXAtariAction_RIGHT)
     = (3, 3, 5, True) \<and>
   total_return example_two_steps = 10 \<and>
   reset_counter example_two_steps = 1 \<and>
   trace (step_and_account example_world example_env JAXAtariAction_RIGHT example_two_steps) =
     trace example_two_steps @
     [Call_step 2 Pacman_RIGHT, Set_caption 3 0 15, Print_game_over 3 15, Call_reset 42001] \<and>
   total_return (step_and_account example_world example_env JAXAtariAction_RIGHT
                   example_two_steps) = 0 \<and>
   reset_counter (step_and_account example_world example_env JAXAtariAction_RIGHT
                    example_two_steps) = 2"
proof -
  have done_step:
    "env_step example_env (state example_two_steps) (pacman_action JAXAtariAction_RIGHT)
       = (3, 3, 5, True)"
    by (simp add: example_two_steps_eq example_env_def)
  have before: "total_return example_two_steps = 10" "reset_counter example_two_steps = 1"
    "state example_two_steps = 2" "master_key example_two_steps = 42"
    by (simp_all add: example_two_steps_eq)
  have vals: "pacman_action JAXAtariAction_RIGHT = Pacman_RIGHT"
    "fold_in example_world 42 1 = 42001"
    "obs_score example_env 3 = Some 3" "obs_lives example_env 3 = None"
    by (simp_all add: pacman_action_in_table action_codes example_world_def example_env_def)
  from done_step_reports_total_then_resets [OF done_step, of example_world]
  show ?thesis using done_step before vals by simp
qed


section \<open>The counter and the reset calls\<close>

text \<open>
  Claim C10. After the set-up the counter holds 1, not 0, and one reset call has been
  made, with the key derived from counter value 0. At the end of every iteration of the
  loop, however it ends and whatever the inputs were, \<open>reset_counter\<close> is the number of
  reset calls made so far, and for every \<open>n\<close> from 1 the \<open>n\<close>-th reset call got the
  key derived from the master key \<open>PRNGKey(42)\<close> and counter value \<open>n - 1\<close>.
\<close>

theorem reset_counter_counts_reset_calls:
  assumes "init_session w env = Inr s0"
    and "s = session_of (main_loop w env s0 inputs)"
  shows "reset_counter s0 = 1 \<and>
         reset_keys (trace s0) = [fold_in w (PRNGKey w 42) 0] \<and>
         reset_counter s = int (length (reset_keys (trace s))) \<and>
         reset_keys (trace s) =
           map (\<lambda>n. fold_in w (PRNGKey w 42) (int n)) [0..<length (reset_keys (trace s))] \<and>
         (\<forall>n. 1 \<le> n \<and> n \<le> length (reset_keys (trace s)) \<longrightarrow>
              reset_keys (trace s) ! (n - 1) = fold_in w (PRNGKey w 42) (int n - 1))"
proof -
  from assms(1) have start: "counter_inv w s0" by (rule init_session_counter_inv)
  then have "counter_inv w (session_of (main_loop w env s0 inputs))"
    by (rule main_loop_counter_inv)
  with assms(2) have inv: "counter_inv w s" by simp
  have "master_key s = master_key s0"
    using assms(2) by (simp add: main_loop_master_key)
  with init_session_fields(2) [OF assms(1)] have mk: "master_key s = PRNGKey w 42" by simp
  from inv mk have count: "reset_counter s = int (length (reset_keys (trace s)))"
    and keys: "reset_keys (trace s) =
           map (\<lambda>n. fold_in w (PRNGKey w 42) (int n)) [0..<length (reset_keys (trace s))]"
    by (simp_all add: counter_inv_def)
  have nth: "reset_keys (trace s) ! (n - 1) = fold_in w (PRNGKey w 42) (int n - 1)"
    if "1 \<le> n \<and> n \<le> length (reset_keys (trace s))" for n
  proof -
    from that have lt: "n - 1 < length (reset_keys (trace s))" by arith
    have "reset_keys (trace s) ! (n - 1) =
            map (\<lambda>n. fold_in w (PRNGKey w 42) (int n)) [0..<length (reset_keys (trace s))] ! (n - 1)"
      using keys by simp
    also have "\<dots> = fold_in w (PRNGKey w 42) (int (n - 1))"
      using lt by simp
    also have "int (n - 1) = int n - 1" using that by simp
    finally show ?thesis .
  qed
  from init_session_fields(1,6) [OF assms(1)] count keys nth show ?thesis by blast
qed

theorem reset_counter_counts_reset_calls_witness:
  "init_session example_world example_env = Inr example_start \<and>
   reset_counter example_start = 1 \<and>
   reset_counter (session_of (main_loop example_world example_env example_start
                    [move_right, move_right, move_right])) = 2 \<and>
   reset_keys (trace (session_of (main_loop example_world example_env example_start
                    [move_right, move_right, move_right]))) =
     [fold_in example_world (PRNGKey example_world 42) 0,
      fold_in example_world (PRNGKey example_world 42) 1]"
proof -
  have len: "length (reset_keys (trace (session_of (main_loop example_world example_env
                example_start [move_right, move_right, move_right])))) = 2"
    unfolding example_three_steps by simp
  have upt: "[0..<2] = [0, Suc 0]" by (simp add: upt_rec)
  from reset_counter_counts_reset_calls [OF example_init refl,
      of "[move_right, move_right, move_right]"]
  show ?thesis using example_init len upt by simp
qed


section \<open>Iterations while paused\<close>

text \<open>
  Claim C4 says that every iteration taken while paused leaves the environment state, the
  cumulative reward and \<open>reset_counter\<close> unchanged. The events of an iteration are handled
  before the pause check of line 99, and the manual reset of lines 92--97 does not look
  at \<open>pause\<close>: in the example world, the session is paused after one step (state 1,
  cumulative reward 5, counter 1); the next iteration receives the key R, stays paused,
  and ends with state 0, cumulative reward 0 and counter 2.
\<close>

theorem paused_tick_manual_reset_counterexample:
  "pause example_paused \<and>
   state example_paused = 1 \<and>
   total_return example_paused = 5 \<and>
   reset_counter example_paused = 1 \<and>
   pause (result_session (tick example_world example_env (press [KEYDOWN K_r]) example_paused)) \<and>
   state (result_session (tick example_world example_env (press [KEYDOWN K_r]) example_paused))
     = 0 \<and>
   total_return
     (result_session (tick example_world example_env (press [KEYDOWN K_r]) example_paused))
     = 0 \<and>
   reset_counter
     (result_session (tick example_world example_env (press [KEYDOWN K_r]) example_paused))
     = 2"
  by (simp add: example_paused_eq loop_defs example_defs)

text \<open>
  Claim C4, amended. In every iteration in which \<open>pause\<close> is set when the check of line 99
  is reached, the rest of the iteration leaves the environment state, the cumulative
  reward and \<open>reset_counter\<close> as the event handling left them; the whole iteration makes no
  step call, does not poll the action source, and makes one render call, on that state
  (whose frame is shown when render returns). The whole iteration leaves the three values
  unchanged when none of its events is the key R.
\<close>

theorem paused_tick_frame:
  assumes "s1 = handle_events w env (emit [Event_get] s) (events inp)"
    and "pause s1"
    and "s' = result_session (tick w env inp s)"
  shows "state s' = state s1 \<and> total_return s' = total_return s1 \<and>
         reset_counter s' = reset_counter s1 \<and>
         step_calls (trace s') = step_calls (trace s) \<and>
         polls (trace s') = polls (trace s) \<and>
         rendered (trace s') = rendered (trace s) @ [state s1] \<and>
         (KEYDOWN K_r \<notin> set (events inp) \<longrightarrow>
            state s' = state s \<and> total_return s' = total_return s \<and>
            reset_counter s' = reset_counter s) \<and>
         (\<forall>img. env_render env (state s1) = Inr img \<longrightarrow>
            tick w env inp s =
              Inr (emit [Call_render (state s1), Update_pygame img, Clock_tick] s1))"
proof -
  from assms(1,2) have branch: "tick w env inp s = render_and_show env s1"
    by (simp add: tick_paused)
  with assms(3) have s': "s' = result_session (render_and_show env s1)" by simp
  have kept: "state s' = state s1 \<and> total_return s' = total_return s1 \<and>
         reset_counter s' = reset_counter s1"
    unfolding s' by simp
  have calls: "step_calls (trace s') = step_calls (trace s) \<and>
         polls (trace s') = polls (trace s) \<and>
         rendered (trace s') = rendered (trace s) @ [state s1]"
    unfolding s' by (simp add: assms(1))
  have whole: "state s' = state s \<and> total_return s' = total_return s \<and>
            reset_counter s' = reset_counter s"
    if "KEYDOWN K_r \<notin> set (events inp)"
    using handle_events_without_reset [OF that, of w env "emit [Event_get] s"] kept
    by (simp add: assms(1))
  have shown: "tick w env inp s =
              Inr (emit [Call_render (state s1), Update_pygame img, Clock_tick] s1)"
    if "env_render env (state s1) = Inr img" for img
    using branch render_and_show_returns [OF that] by simp
  from kept calls whole shown show ?thesis by blast
qed

theorem paused_tick_frame_witness:
  "pause (handle_events example_world example_env (emit [Event_get] example_paused)
            (events (press []))) \<and>
   KEYDOWN K_r \<notin> set (events (press [])) \<and>
   env_render example_env (state example_paused) = Inr 1 \<and>
   state (result_session (tick example_world example_env (press []) example_paused))
     = state example_paused \<and>
   total_return (result_session (tick example_world example_env (press []) example_paused))
     = total_return example_paused \<and>
   reset_counter (result_session (tick example_world example_env (press []) example_paused))
     = reset_counter example_paused \<and>
   step_calls (trace (result_session (tick example_world example_env (press []) example_paused)))
     = step_calls (trace example_paused) \<and>
   polls (trace (result_session (tick example_world example_env (press []) example_paused)))
     = polls (trace example_paused) \<and>
   rendered (trace (result_session (tick example_world example_env (press []) example_paused)))
     = rendered (trace example_paused) @ [state example_paused]"
proof -
  have paused: "pause (handle_events example_world example_env (emit [Event_get] example_paused)
            (events (press [])))"
    by (simp add: press_def example_paused_eq)
  have no_reset: "KEYDOWN K_r \<notin> set (events (press []))"
    by (simp add: press_def)
  have same: "state (handle_events example_world example_env (emit [Event_get] example_paused)
            (events (press []))) = state example_paused"
    by (simp add: press_def)
  have frame: "env_render example_env (state example_paused) = Inr 1"
    by (simp add: example_paused_eq example_env_def)
  from paused_tick_frame [OF refl paused refl] no_reset same frame paused
  show ?thesis by simp
qed


section \<open>The frame shown when an episode ends\<close>

text \<open>
  Claim C5 says that the terminal state a \<open>done\<close> step produces is rendered at least once
  before or while the automatic reset replaces it. The render of lines 149--151 comes after
  the reset of lines 141--146 and takes the state variable the reset has overwritten: in
  the example world the third step returns the terminal state 3 with \<open>done\<close>, the render
  calls of the session up to the end of that iteration are on the states 0, 1, 2 and 0,
  and the session goes on from state 0.
\<close>

theorem terminal_state_not_rendered_counterexample:
  "env_step example_env (state example_two_steps) (pacman_action JAXAtariAction_RIGHT)
     = (3, 3, 5, True) \<and>
   rendered (trace example_two_steps) = [0, 1, 2] \<and>
   rendered (trace (result_session
      (tick example_world example_env move_right example_two_steps))) = [0, 1, 2, 0] \<and>
   3 \<notin> set (rendered (trace (result_session
      (tick example_world example_env move_right example_two_steps)))) \<and>
   state (result_session (tick example_world example_env move_right example_two_steps)) = 0"
  by (simp add: example_two_steps_eq loop_defs example_defs action_codes)

text \<open>
  Claim C5, amended. Whenever the step of an iteration returns \<open>done\<close>, the iteration
  polls the action source, calls step, writes the caption, prints the game-over report and
  calls reset, and only then makes its one render call, on the state reset returned: the
  terminal state is not passed to render, and what the iteration shows of the finished
  episode is the caption and the report, both issued before the reset.
\<close>

theorem done_tick_renders_reset_state:
  assumes "s1 = handle_events w env (emit [Event_get] s) (events inp)"
    and "\<not> pause s1"
    and "human_action inp = Inr a"
    and "env_step env (state s1) (pacman_action a) = (ob, st, r, True)"
    and "s2 = step_and_account w env a (emit [Get_human_action] s1)"
    and "s' = result_session (tick w env inp s)"
    and "reset_key = fold_in w (master_key s) (reset_counter s1)"
  shows "tick w env inp s = render_and_show env s2 \<and>
         trace s2 =
           trace s1 @
           [Get_human_action,
            Call_step (state s1) (pacman_action a),
            Set_caption (case obs_score env ob of Some v \<Rightarrow> v | None \<Rightarrow> 0)
                        (case obs_lives env ob of Some v \<Rightarrow> v | None \<Rightarrow> 0)
                        (total_return s1 + r),
            Print_game_over (case obs_score env ob of Some v \<Rightarrow> v | None \<Rightarrow> 0)
                            (total_return s1 + r),
            Call_reset reset_key] \<and>
         state s2 = snd (env_reset env reset_key) \<and>
         state s' = snd (env_reset env reset_key) \<and>
         rendered (trace s') = rendered (trace s) @ [snd (env_reset env reset_key)]"
proof -
  let ?p = "emit [Get_human_action] s1"
  have step: "env_step env (state ?p) (pacman_action a) = (ob, st, r, True)"
    using assms(4) by simp
  have mk: "master_key ?p = master_key s" "reset_counter ?p = reset_counter s1"
    by (simp_all add: assms(1))
  from assms(1,2,3,5) have branch: "tick w env inp s = render_and_show env s2"
    by (simp add: tick_active)
  have tr: "trace s2 =
           trace s1 @
           [Get_human_action,
            Call_step (state s1) (pacman_action a),
            Set_caption (case obs_score env ob of Some v \<Rightarrow> v | None \<Rightarrow> 0)
                        (case obs_lives env ob of Some v \<Rightarrow> v | None \<Rightarrow> 0)
                        (total_return s1 + r),
            Print_game_over (case obs_score env ob of Some v \<Rightarrow> v | None \<Rightarrow> 0)
                            (total_return s1 + r),
            Call_reset reset_key]"
    unfolding assms(5) step_done(7) [OF step] assms(7) mk by simp
  have st2: "state s2 = snd (env_reset env reset_key)"
    unfolding assms(5) step_done(6) [OF step] assms(7) mk by simp
  have s': "s' = result_session (render_and_show env s2)"
    using assms(6) branch by simp
  have st': "state s' = snd (env_reset env reset_key)"
    unfolding s' using st2 by simp
  have "rendered (trace s2) = rendered (trace s)"
    unfolding assms(5) by (simp add: step_and_account_calls assms(1))
  then have rd: "rendered (trace s') = rendered (trace s) @ [snd (env_reset env reset_key)]"
    unfolding s' using st2 by simp
  from branch tr st2 st' rd show ?thesis by blast
qed

theorem done_tick_renders_reset_state_witness:
  "\<not> pause (handle_events example_world example_env (emit [Event_get] example_two_steps)
              (events move_right)) \<and>
   human_action move_right = Inr JAXAtariAction_RIGHT \<and>
   env_step example_env
     (state (handle_events example_world example_env (emit [Event_get] example_two_steps)
               (events move_right)))
     (pacman_action JAXAtariAction_RIGHT) = (3, 3, 5, True) \<and>
   state (result_session (tick example_world example_env move_right example_two_steps))
     = snd (env_reset example_env 42001) \<and>
   rendered (trace (result_session (tick example_world example_env move_right example_two_steps)))
     = rendered (trace example_two_steps) @ [snd (env_reset example_env 42001)]"
proof -
  have running_on: "\<not> pause (handle_events example_world example_env
              (emit [Event_get] example_two_steps) (events move_right))"
    by (simp add: move_right_def example_two_steps_eq)
  have action: "human_action move_right = Inr JAXAtariAction_RIGHT"
    by (simp add: move_right_def)
  have terminal: "env_step example_env
     (state (handle_events example_world example_env (emit [Event_get] example_two_steps)
               (events move_right)))
     (pacman_action JAXAtariAction_RIGHT) = (3, 3, 5, True)"
    by (simp add: move_right_def example_two_steps_eq example_env_def)
  have key: "fold_in example_world (master_key example_two_steps)
     (reset_counter (handle_events example_world example_env
        (emit [Event_get] example_two_steps) (events move_right))) = 42001"
    by (simp add: move_right_def example_two_steps_eq example_world_def)
  from done_tick_renders_reset_state [OF refl running_on action terminal refl refl refl] key
  show ?thesis using running_on action terminal by simp
qed


section \<open>Failures\<close>

text \<open>
  Claim C7 says that the process ends with a non-zero exit status when the environment
  cannot be constructed. The handler of lines 37--41 reports the exception and returns from
  \<open>main\<close>; no exception reaches the module-level handlers, which alone call
  \<open>sys.exit(1)\<close>, so the script ends normally: in a world whose \<open>jaxatari.make\<close> raises,
  the exit status is 0.
\<close>

theorem make_failure_exit_status_counterexample:
  "import_error gameless_world = None \<and>
   jaxatari_make gameless_world = Inl (OtherException ''unknown game'') \<and>
   script gameless_world [move_right] =
     (Some 0,
      [Print_banner, Print_loading, Call_make,
       Print_load_error (OtherException ''unknown game''), Print_traceback])"
  by (simp add: script_def main_def gameless_world_def example_world_def)

text \<open>
  Claim C7, amended. If \<open>jaxatari.make\<close> raises an \<open>Exception\<close> during set-up, the failure
  is reported (message and traceback), nothing else happens (pygame is not initialised, the
  main loop is never entered, whatever the inputs would have been), and the process
  terminates normally, with exit status 0.
\<close>

theorem make_failure_reported_then_normal_exit:
  assumes "import_error w = None"
    and "jaxatari_make w = Inl e"
    and "is_Exception e"
  shows "script w inputs =
           (Some 0,
            [Print_banner, Print_loading, Call_make, Print_load_error e, Print_traceback])"
  using assms by (simp add: script_def main_def)

theorem make_failure_reported_then_normal_exit_witness:
  "import_error gameless_world = None \<and>
   jaxatari_make gameless_world = Inl (OtherException ''unknown game'') \<and>
   is_Exception (OtherException ''unknown game'') \<and>
   script gameless_world [move_right, press [QUIT]] =
     (Some 0,
      [Print_banner, Print_loading, Call_make,
       Print_load_error (OtherException ''unknown game''), Print_traceback])"
proof -
  have ok: "import_error gameless_world = None"
    by (simp add: gameless_world_def example_world_def)
  have failed: "jaxatari_make gameless_world = Inl (OtherException ''unknown game'')"
    by (simp add: gameless_world_def example_world_def)
  have cls: "is_Exception (OtherException ''unknown game'')" by simp
  from make_failure_reported_then_normal_exit [OF ok failed cls, of "[move_right, press [QUIT]]"]
  show ?thesis using ok failed cls by simp
qed

text \<open>
  Claim C8 says that an exception of a render call in the loop is caught and reported and
  that the loop goes on with the next iteration. Nothing in the loop catches it (lines
  101 and 149 are in no \<open>try\<close>): it leaves \<open>main\<close> and reaches the module-level
  handler, which reports it and exits with status 1. In a world whose render raises
  on the state after the first step, the inputs of a second iteration are never read.
\<close>

theorem render_exception_crashes_counterexample:
  "script flaky_world [move_right, move_right] =
     (Some 1,
      [Print_banner, Print_loading, Call_make, Print_loaded, Pygame_init,
       Set_caption_title, Call_reset 42000, Call_render 0, Set_mode,
       Print_starting, Event_get, Get_human_action, Call_step 0 2,
       Set_caption 1 0 5, Call_render 1,
       Print_error (OtherException ''render failed''), Print_traceback,
       Sys_exit 1])"
proof -
  have lib: "import_error flaky_world = None" "jaxatari_make flaky_world = Inr flaky_env"
    by (simp_all add: flaky_world_def example_world_def)
  show ?thesis
    unfolding script_def main_def lib
    by (simp add: flaky_init flaky_run del: main_loop.simps)
qed

text \<open>
  Claim C8, amended. If a render call of an iteration of the loop raises an \<open>Exception\<close>
  (in the pause branch or after the step), the exception is not caught in the loop: the
  iteration and the loop end there, the inputs of later iterations are never read, the
  module-level handler reports the exception and the process terminates with exit
  status 1.
\<close>

theorem render_exception_ends_session:
  assumes "import_error w = None"
    and "jaxatari_make w = Inr env"
    and "init_session w env = Inr s0"
    and "main_loop w env s0 pre = Pending s"
    and "s1 = handle_events w env (emit [Event_get] s) (events inp)"
    and "s2 = (if pause s1 then s1
               else step_and_account w env a (emit [Get_human_action] s1))"
    and "pause s1 \<or> human_action inp = Inr a"
    and "env_render env (state s2) = Inl e"
    and "is_Exception e"
  shows "tick w env inp s = Inl (e, emit [Call_render (state s2)] s2) \<and>
         main_loop w env s0 (pre @ inp # rest) = Raised e (emit [Call_render (state s2)] s2) \<and>
         script w (pre @ inp # rest) =
           module_handler e
             ([Print_banner, Print_loading, Call_make, Print_loaded] @ trace s2 @
              [Call_render (state s2)]) \<and>
         fst (script w (pre @ inp # rest)) = Some 1"
proof -
  have t: "tick w env inp s = Inl (e, emit [Call_render (state s2)] s2)"
  proof (cases "pause s1")
    case True
    with assms(6) have "s2 = s1" by simp
    with True assms(5,8) show ?thesis
      by (simp add: tick_paused render_and_show_raises)
  next
    case False
    with assms(7) have act: "human_action inp = Inr a" by simp
    from False assms(6) have "s2 = step_and_account w env a (emit [Get_human_action] s1)"
      by simp
    with False act assms(5,8) show ?thesis
      by (simp add: tick_active render_and_show_raises)
  qed
  from assms(4) have "running s"
    by (induction pre arbitrary: s0) (auto split: if_splits sum.splits)
  with t have "main_loop w env s (inp # rest) = Raised e (emit [Call_render (state s2)] s2)"
    by simp
  with main_loop_append [OF assms(4), of "inp # rest"]
  have l: "main_loop w env s0 (pre @ inp # rest) = Raised e (emit [Call_render (state s2)] s2)"
    by simp
  have sc: "script w (pre @ inp # rest) =
           module_handler e
             ([Print_banner, Print_loading, Call_make, Print_loaded] @ trace s2 @
              [Call_render (state s2)])"
    using assms(1,2,3) l by (simp add: script_def main_def)
  from assms(9) have "fst (module_handler e tr) = Some 1" for tr :: "('a, 'b, 'd, 'e) effect list"
    by (cases e) simp_all
  with sc have "fst (script w (pre @ inp # rest)) = Some 1" by simp
  with t l sc show ?thesis by blast
qed


theorem render_exception_ends_session_witness:
  "import_error flaky_world = None \<and>
   jaxatari_make flaky_world = Inr flaky_env \<and>
   init_session flaky_world flaky_env = Inr example_start \<and>
   main_loop flaky_world flaky_env example_start [] = Pending example_start \<and>
   human_action move_right = Inr JAXAtariAction_RIGHT \<and>
   env_render flaky_env 1 = Inl (OtherException ''render failed'') \<and>
   is_Exception (OtherException ''render failed'') \<and>
   main_loop flaky_world flaky_env example_start ([] @ move_right # [move_right, press [QUIT]])
     = Raised (OtherException ''render failed'')
         (emit [Call_render 1]
            (step_and_account flaky_world flaky_env JAXAtariAction_RIGHT
               (emit [Get_human_action]
                  (handle_events flaky_world flaky_env (emit [Event_get] example_start)
                     (events move_right))))) \<and>
   fst (script flaky_world ([] @ move_right # [move_right, press [QUIT]])) = Some 1"
proof -
  let ?s1 = "handle_events flaky_world flaky_env (emit [Event_get] example_start)
               (events move_right)"
  let ?s2 = "if pause ?s1 then ?s1
             else step_and_account flaky_world flaky_env JAXAtariAction_RIGHT
                    (emit [Get_human_action] ?s1)"
  have lib: "import_error flaky_world = None" "jaxatari_make flaky_world = Inr flaky_env"
    by (simp_all add: flaky_world_def example_world_def)
  have entered: "main_loop flaky_world flaky_env example_start [] = Pending example_start"
    by (simp add: example_start_def)
  have action: "pause ?s1 \<or> human_action move_right = Inr JAXAtariAction_RIGHT"
    "human_action move_right = Inr JAXAtariAction_RIGHT"
    by (simp_all add: move_right_def)
  have active: "\<not> pause ?s1"
    by (simp add: move_right_def example_start_def)
  have st: "state ?s2 = 1"
    by (simp add: loop_defs example_defs action_codes)
  have broken: "env_render flaky_env 1 = Inl (OtherException ''render failed'')"
    by (simp add: flaky_env_def example_env_def)
  then have raises: "env_render flaky_env (state ?s2) = Inl (OtherException ''render failed'')"
    unfolding st .
  have cls: "is_Exception (OtherException ''render failed'')" by simp
  from render_exception_ends_session
    [OF lib flaky_init entered refl refl action(1) raises cls, of "[move_right, press [QUIT]]"]
  show ?thesis using lib flaky_init entered action(2) broken active st by simp
qed

end
